theory Spec2Isabelle
  imports Complex_Main
begin

section \<open>The Robertson model's mass matrix\<close>

text \<open>
  Source: \<^verbatim>\<open>src/models/model_robertson/model_robertson_M.cpp\<close>.
  \<^verbatim>\<open>
  void M_model_robertson(realtype *M, const realtype t, const realtype *x,
                         const realtype *p, const realtype *k) {
    M[0+0*3] = 1.0;
    M[1+1*3] = 1.0;
  }
  \<close>
  \<open>realtype\<close> is declared in \<^verbatim>\<open>amici_defines.h\<close>, which is not among the
  sources; the function only stores the constants \<open>1.0\<close> into it and never computes
  with it, so it is taken as \<open>real\<close> here. The pointers \<open>M\<close>, \<open>x\<close>, \<open>p\<close>, \<open>k\<close> are
  arrays, modelled as lists; the function mutates \<open>M\<close> in place, the model returns
  the new buffer. The two stores go to the offsets \<open>0 + 0 * 3\<close> and \<open>1 + 1 * 3\<close>; a
  buffer too short for them is a write outside the array (undefined in C), which is
  \<open>None\<close> here.
\<close>

type_synonym realtype = real

definition M_model_robertson ::
  "realtype list \<Rightarrow> realtype \<Rightarrow> realtype list \<Rightarrow> realtype list \<Rightarrow> realtype list
    \<Rightarrow> realtype list option" where
  "M_model_robertson M t x p k =
     (if length M \<le> 1 + 1 * 3 then None
      else Some ((M[0 + 0 * 3 := 1])[1 + 1 * 3 := 1]))"

text \<open>
  The buffer holds a \<open>3 \<times> 3\<close> matrix; the source addresses row \<open>i\<close>, column \<open>j\<close> as
  \<open>M[i + j*3]\<close>. \<open>det3\<close> is the determinant of such a buffer (expansion along the
  first row), used to say that the mass matrix is singular.
\<close>

definition entry3 :: "realtype list \<Rightarrow> nat \<Rightarrow> nat \<Rightarrow> realtype" where
  "entry3 M i j = M ! (i + j * 3)"

definition det3 :: "realtype list \<Rightarrow> realtype" where
  "det3 M =
     entry3 M 0 0 * (entry3 M 1 1 * entry3 M 2 2 - entry3 M 1 2 * entry3 M 2 1)
   - entry3 M 0 1 * (entry3 M 1 0 * entry3 M 2 2 - entry3 M 1 2 * entry3 M 2 0)
   + entry3 M 0 2 * (entry3 M 1 0 * entry3 M 2 1 - entry3 M 1 1 * entry3 M 2 0)"

section \<open>The SBML model \<^verbatim>\<open>regression_2642.xml\<close>\<close>

text \<open>
  Source: \<^verbatim>\<open>src/python/tests/sbml_models/regression_2642.xml\<close>. The file is
  data; it is embedded as a value of a record that follows the SBML elements the
  file uses. MathML expressions are a datatype with the operators that occur in
  the file. Numbers are rationals: \<open>cn\<close> literals are decimal fractions.
\<close>

datatype mathml =
    Ci string
  | Cn rat
  | Times mathml mathml
  | Minus mathml mathml
  | Divide mathml mathml

record parameter =
  parameter_id :: string
  parameter_value :: "rat option"

record speciesReference =
  species :: string
  stoichiometry :: rat

record reaction =
  reaction_id :: string
  listOfReactants :: "speciesReference list"
  listOfProducts :: "speciesReference list"
  kineticLaw :: mathml

record sbml_model =
  listOfSpecies :: "string list"
  listOfParameters :: "parameter list"
  listOfInitialAssignments :: "(string \<times> mathml) list"
  listOfReactions :: "reaction list"

definition regression_2642 :: sbml_model where
  "regression_2642 = \<lparr>
     listOfSpecies = [''MR_i'', ''MR_m''],
     listOfParameters =
       [\<lparr>parameter_id = ''synthesis_MR'', parameter_value = None\<rparr>,
        \<lparr>parameter_id = ''recycling'', parameter_value = Some (45 / 10000000)\<rparr>,
        \<lparr>parameter_id = ''binding'', parameter_value = None\<rparr>,
        \<lparr>parameter_id = ''MR_i_t0'', parameter_value = Some 1400000\<rparr>,
        \<lparr>parameter_id = ''MR_m_t0'', parameter_value = Some 600000\<rparr>],
     listOfInitialAssignments =
       [(''MR_i'', Ci ''MR_i_t0''),
        (''MR_m'', Ci ''MR_m_t0''),
        (''synthesis_MR'',
           Divide (Cn (585177319092733 / 100000000000000000)) (Cn (606 / 100000))),
        (''binding'',
           Divide (Minus (Times (Ci ''recycling'') (Ci ''MR_i'')) (Ci ''synthesis_MR''))
                  (Ci ''MR_m''))],
     listOfReactions =
       [\<lparr>reaction_id = ''_J0'',
         listOfReactants = [],
         listOfProducts = [\<lparr>species = ''MR_i'', stoichiometry = 1\<rparr>],
         kineticLaw = Ci ''synthesis_MR''\<rparr>,
        \<lparr>reaction_id = ''_J1'',
         listOfReactants = [\<lparr>species = ''MR_i'', stoichiometry = 1\<rparr>],
         listOfProducts = [\<lparr>species = ''MR_m'', stoichiometry = 1\<rparr>],
         kineticLaw = Times (Ci ''recycling'') (Ci ''MR_i'')\<rparr>,
        \<lparr>reaction_id = ''_J2'',
         listOfReactants = [\<lparr>species = ''MR_m'', stoichiometry = 1\<rparr>],
         listOfProducts = [\<lparr>species = ''MR_i'', stoichiometry = 1\<rparr>],
         kineticLaw = Times (Ci ''binding'') (Ci ''MR_m'')\<rparr>]
   \<rparr>"

text \<open>
  Evaluation of a MathML expression in an environment that maps identifiers to
  values. An identifier without a value and a division by zero have no value in
  exact arithmetic; both are \<open>None\<close>.
\<close>

type_synonym env = "string \<rightharpoonup> rat"

fun eval_math :: "env \<Rightarrow> mathml \<Rightarrow> rat option" where
  "eval_math e (Ci s) = e s"
| "eval_math e (Cn c) = Some c"
| "eval_math e (Times a b) =
     (case (eval_math e a, eval_math e b) of
        (Some u, Some v) \<Rightarrow> Some (u * v) | _ \<Rightarrow> None)"
| "eval_math e (Minus a b) =
     (case (eval_math e a, eval_math e b) of
        (Some u, Some v) \<Rightarrow> Some (u - v) | _ \<Rightarrow> None)"
| "eval_math e (Divide a b) =
     (case (eval_math e a, eval_math e b) of
        (Some u, Some v) \<Rightarrow> (if v = 0 then None else Some (u / v)) | _ \<Rightarrow> None)"

text \<open>
  The environment before the initial assignments: the \<open>value\<close> attributes of the
  parameters, overridden by the values a caller supplies (a parameter valuation).
\<close>

fun parameter_env :: "parameter list \<Rightarrow> env" where
  "parameter_env [] = Map.empty"
| "parameter_env (q # qs) =
     (case parameter_value q of
        None \<Rightarrow> parameter_env qs
      | Some v \<Rightarrow> (parameter_env qs)(parameter_id q \<mapsto> v))"

definition valuation_env :: "sbml_model \<Rightarrow> env \<Rightarrow> env" where
  "valuation_env m v = parameter_env (listOfParameters m) ++ v"

text \<open>
  The initial assignments define the values at \<open>t = 0\<close>. Each assigned symbol
  takes the value of its expression; the file lists them so that every expression
  only mentions symbols assigned before it, and they are evaluated in that order.
\<close>

fun initial_assignments :: "(string \<times> mathml) list \<Rightarrow> env \<Rightarrow> env option" where
  "initial_assignments [] e = Some e"
| "initial_assignments ((s, ex) # as) e =
     (case eval_math e ex of
        None \<Rightarrow> None
      | Some v \<Rightarrow> initial_assignments as (e(s \<mapsto> v)))"

definition initial_env :: "sbml_model \<Rightarrow> env \<Rightarrow> env option" where
  "initial_env m v = initial_assignments (listOfInitialAssignments m) (valuation_env m v)"

text \<open>
  The rate of a reaction is the value of its kinetic law. The net rate of a species
  is the sum over all reactions of the rate times the species' stoichiometry as a
  product minus its stoichiometry as a reactant.
\<close>

definition stoich_of :: "string \<Rightarrow> speciesReference list \<Rightarrow> rat" where
  "stoich_of s refs = sum_list (map stoichiometry (filter (\<lambda>r. species r = s) refs))"

definition rate :: "env \<Rightarrow> reaction \<Rightarrow> rat option" where
  "rate e r = eval_math e (kineticLaw r)"

fun net_rate :: "env \<Rightarrow> reaction list \<Rightarrow> string \<Rightarrow> rat option" where
  "net_rate e [] s = Some 0"
| "net_rate e (r # rs) s =
     (case (rate e r, net_rate e rs s) of
        (Some v, Some w) \<Rightarrow>
          Some ((stoich_of s (listOfProducts r) - stoich_of s (listOfReactants r)) * v + w)
      | _ \<Rightarrow> None)"

definition reaction_named :: "sbml_model \<Rightarrow> string \<Rightarrow> reaction option" where
  "reaction_named m n = find (\<lambda>r. reaction_id r = n) (listOfReactions m)"

definition rate_of :: "sbml_model \<Rightarrow> env \<Rightarrow> string \<Rightarrow> rat option" where
  "rate_of m e n = (case reaction_named m n of None \<Rightarrow> None | Some r \<Rightarrow> rate e r)"

section \<open>The steady-state solver\<close>

text \<open>
  The engine's steady-state code is not among the sources; the definitions of this
  section follow the specification's description of it (the data model, the
  \<open>SteadyStateCheck\<close> phase of the Integration Driver, the Steady-State Solver and the
  error taxonomy).
\<close>

text \<open>
  Modelled from the spec: the error \<open>NonConvergenceError\<close> of the engine's error
  taxonomy (the engine's sources are missing). The spec has it "reported with last
  iterate", which is its argument.
\<close>

datatype 'x engine_error = NonConvergenceError 'x

text \<open>
  Modelled from the spec: the \<open>SteadyStateResult\<close> of the data model (missing with the
  engine): "final state, a convergence flag, and the number of iterations".
\<close>

record 'x SteadyStateResult =
  final_state :: 'x
  convergence_flag :: bool
  iterations :: nat

text \<open>
  Modelled from the spec: the two strategies of the Steady-State Solver (missing
  with the engine), "selected by configuration": integration-based and
  root-finding-based.
\<close>

datatype steady_state_strategy = IntegrationBased | RootFindingBased

text \<open>
  Modelled from the spec: what the Steady-State Solver (missing with the engine)
  consumes. \<open>rhs\<close> is the model's right-hand side at a state; \<open>wrms_norm\<close> is the
  weighted-RMS norm of a derivative, weighted relative to the magnitude of the
  current state (its second argument); \<open>driver_step\<close> is one accepted step of the
  Integration Driver and \<open>newton_step\<close> one Newton iteration through the Linear
  Algebra Adapter, both opaque to the solver; the two budgets bound the number of
  steps of either kind.
\<close>

record 'x steady_state_problem =
  rhs :: "'x \<Rightarrow> real list"
  wrms_norm :: "real list \<Rightarrow> 'x \<Rightarrow> real"
  convergence_threshold :: real
  driver_step :: "'x \<Rightarrow> 'x"
  newton_step :: "'x \<Rightarrow> 'x"
  step_budget :: nat
  newton_budget :: nat

text \<open>
  Modelled from the spec: the convergence test of the \<open>SteadyStateCheck\<close> phase
  (missing with the engine): the weighted-RMS norm of \<open>dx/dt\<close> "falls below a
  convergence threshold relative to the current state magnitude".
\<close>

definition is_steady :: "'x steady_state_problem \<Rightarrow> 'x \<Rightarrow> bool" where
  "is_steady P x \<longleftrightarrow> wrms_norm P (rhs P x) x < convergence_threshold P"

text \<open>
  Modelled from the spec: the iteration of the Steady-State Solver (missing with
  the engine): step, test the convergence norm after each step, stop when it is
  below the threshold. \<open>n\<close> is what is left of the budget and \<open>i\<close> counts the
  iterations made. A run that uses up its budget gives back its last iterate
  (\<open>Inl\<close>); only a state that passed the test is returned as a result.
\<close>

fun iterate_until_steady ::
  "'x steady_state_problem \<Rightarrow> ('x \<Rightarrow> 'x) \<Rightarrow> nat \<Rightarrow> nat \<Rightarrow> 'x
    \<Rightarrow> ('x \<times> nat) + 'x SteadyStateResult" where
  "iterate_until_steady P step 0 i x =
     (if is_steady P x
      then Inr \<lparr>final_state = x, convergence_flag = True, iterations = i\<rparr>
      else Inl (x, i))"
| "iterate_until_steady P step (Suc n) i x =
     (if is_steady P x
      then Inr \<lparr>final_state = x, convergence_flag = True, iterations = i\<rparr>
      else iterate_until_steady P step n (Suc i) (step x))"

text \<open>
  Modelled from the spec: the Steady-State Solver (missing with the engine). The
  root-finding strategy iterates Newton steps. The integration strategy steps the
  Integration Driver and, when "time-integration convergence stalls past a
  step-count budget", escalates to the Newton solve from the state reached. When the
  budget is used up the solver "fails with \<open>NonConvergenceError\<close>".
\<close>

definition steady_state ::
  "steady_state_strategy \<Rightarrow> 'x steady_state_problem \<Rightarrow> 'x
    \<Rightarrow> 'x engine_error + 'x SteadyStateResult" where
  "steady_state s P x0 =
     (case s of
        RootFindingBased \<Rightarrow>
          (case iterate_until_steady P (newton_step P) (newton_budget P) 0 x0 of
             Inr r \<Rightarrow> Inr r
           | Inl (x, i) \<Rightarrow> Inl (NonConvergenceError x))
      | IntegrationBased \<Rightarrow>
          (case iterate_until_steady P (driver_step P) (step_budget P) 0 x0 of
             Inr r \<Rightarrow> Inr r
           | Inl (x, i) \<Rightarrow>
               (case iterate_until_steady P (newton_step P) (newton_budget P) i x of
                  Inr r \<Rightarrow> Inr r
                | Inl (x', i') \<Rightarrow> Inl (NonConvergenceError x'))))"

text \<open>
  Modelled from the spec: "exceeding an iteration/time budget" (the solver is
  missing with the engine): no iterate the strategy visits within its budget passes
  the convergence test. For the integration strategy these are the driver's iterates
  and then the Newton iterates from the last of them.
\<close>

definition budget_exceeded ::
  "steady_state_strategy \<Rightarrow> 'x steady_state_problem \<Rightarrow> 'x \<Rightarrow> bool" where
  "budget_exceeded s P x0 =
     (case s of
        RootFindingBased \<Rightarrow>
          (\<forall>k \<in> {0..newton_budget P}. \<not> is_steady P ((newton_step P ^^ k) x0))
      | IntegrationBased \<Rightarrow>
          (\<forall>k \<in> {0..step_budget P}. \<not> is_steady P ((driver_step P ^^ k) x0)) \<and>
          (\<forall>k \<in> {0..newton_budget P}.
             \<not> is_steady P ((newton_step P ^^ k) ((driver_step P ^^ step_budget P) x0))))"

text \<open>
  Modelled from the spec: the two models of the steady-state test of the testable
  properties (no such test is among the sources). \<open>phase_oscillator\<close> is "an
  oscillatory model with no fixed point": a phase that advances at the constant rate
  1 around four positions, so that its derivative is never zero; a Newton step makes
  no progress on it. \<open>linear_decay\<close> is the "linear decay model \<open>dx/dt = -k\<cdot>x\<close>" with
  \<open>k = 1\<close>, a driver step that halves the state, and a Newton step that solves the
  linear equation at once.
\<close>

definition phase_oscillator :: "int steady_state_problem" where
  "phase_oscillator = \<lparr>
     rhs = (\<lambda>\<theta>. [1]),
     wrms_norm = (\<lambda>v x. sum_list (map abs v)),
     convergence_threshold = 1 / 100,
     driver_step = (\<lambda>\<theta>. (\<theta> + 1) mod 4),
     newton_step = (\<lambda>\<theta>. \<theta>),
     step_budget = 5,
     newton_budget = 2 \<rparr>"

definition linear_decay :: "real steady_state_problem" where
  "linear_decay = \<lparr>
     rhs = (\<lambda>x. [- x]),
     wrms_norm = (\<lambda>v x. sum_list (map abs v)),
     convergence_threshold = 1 / 10,
     driver_step = (\<lambda>x. x / 2),
     newton_step = (\<lambda>x. 0),
     step_budget = 10,
     newton_budget = 2 \<rparr>"

section \<open>Events whose roots cross in the same window\<close>

text \<open>
  The engine's event handling is not among the sources either; the definitions of
  this section follow the specification's data model (root functions, events, event
  occurrences) and its description of the \<open>Stepping\<close> and \<open>EventPending\<close> phases
  and of the Event/Root Handler.
\<close>

text \<open>
  Modelled from the spec: the direction filter of a root function (missing with the
  engine): "rising/falling/either".
\<close>

datatype direction = Rising | Falling | Either

text \<open>
  Modelled from the spec: a member of the RootFunction set (missing with the
  engine): a scalar function of time and state (the parameters are fixed over a
  run), with "a direction filter" and "a one-shot vs. repeatable flag".
\<close>

record 'x RootFunction =
  root_value :: "real \<Rightarrow> 'x \<Rightarrow> real"
  direction_filter :: direction
  one_shot :: bool

text \<open>
  Modelled from the spec: an Event (missing with the engine): it "fires when a root
  function crosses zero in the configured direction" and "carries a state-update
  rule". The model's static event list is a list of these, in declaration order.
\<close>

record 'x Event = "'x RootFunction" +
  state_update_rule :: "real \<Rightarrow> 'x \<Rightarrow> 'x"

text \<open>
  Modelled from the spec: an occurrence of an event (missing with the engine), the
  runtime value "(crossing time, which root fired)" that the handler records.
\<close>

record EventOccurrence =
  which_root :: nat
  crossing_time :: real

text \<open>
  Modelled from the spec: the part of the ModelState that the order of processing
  shows in (missing with the engine): the current time, the state, and the event log
  of the output surface. Sensitivities are left out.
\<close>

record 'x ModelState =
  time :: real
  state :: 'x
  event_log :: "EventOccurrence list"

text \<open>
  Modelled from the spec: the sign comparison of the \<open>Stepping\<close> phase (missing
  with the engine): the root's value is compared "against the previous evaluation",
  and "a sign change with no matching direction is ignored".
\<close>

definition sign_change :: "real \<Rightarrow> real \<Rightarrow> bool" where
  "sign_change old new \<longleftrightarrow> sgn old \<noteq> sgn new"

fun direction_matches :: "direction \<Rightarrow> real \<Rightarrow> real \<Rightarrow> bool" where
  "direction_matches Rising old new \<longleftrightarrow> old < new"
| "direction_matches Falling old new \<longleftrightarrow> new < old"
| "direction_matches Either old new \<longleftrightarrow> True"

text \<open>
  Modelled from the spec: whether an event's root crosses zero in its direction
  inside a window (missing with the engine). A window is given by time and state at
  its two ends: the bracket, no wider than the configured tolerance, that the
  localisation of the \<open>EventPending\<close> phase ends with.
\<close>

definition crosses :: "'x Event \<Rightarrow> real \<times> 'x \<Rightarrow> real \<times> 'x \<Rightarrow> bool" where
  "crosses ev lo hi =
     (let old = root_value ev (fst lo) (snd lo);
          new = root_value ev (fst hi) (snd hi)
      in sign_change old new \<and> direction_matches (direction_filter ev) old new)"

text \<open>
  Modelled from the spec: the one-shot flag (missing with the engine): a one-shot
  event that has an occurrence in the log does not fire again.
\<close>

definition spent :: "'x Event list \<Rightarrow> EventOccurrence list \<Rightarrow> nat \<Rightarrow> bool" where
  "spent events occ i \<longleftrightarrow> one_shot (events ! i) \<and> i \<in> set (map which_root occ)"

text \<open>
  Modelled from the spec: the events that fire in a window (missing with the
  engine), as positions in the static event list.
\<close>

definition crossing_in_window ::
  "'x Event list \<Rightarrow> EventOccurrence list \<Rightarrow> real \<times> 'x \<Rightarrow> real \<times> 'x \<Rightarrow> nat list" where
  "crossing_in_window events occ lo hi =
     filter (\<lambda>i. crosses (events ! i) lo hi \<and> \<not> spent events occ i) [0..<length events]"

text \<open>
  Modelled from the spec: the handler's processing of one event (missing with the
  engine): it "applies the event's state-update rule" and records "which event
  fired and at what time".
\<close>

definition process_event :: "'x Event list \<Rightarrow> nat \<Rightarrow> 'x ModelState \<Rightarrow> 'x ModelState" where
  "process_event events i st =
     st\<lparr>state := state_update_rule (events ! i) (time st) (state st),
        event_log := event_log st @ [\<lparr>which_root = i, crossing_time = time st\<rparr>]\<rparr>"

text \<open>
  Modelled from the spec: the \<open>EventPending\<close> phase after localisation (missing with
  the engine): the run is at the upper end of the window, and the events whose roots
  cross within the window are processed one after the other, "in declaration
  order".
\<close>

definition handle_events ::
  "'x Event list \<Rightarrow> real \<times> 'x \<Rightarrow> real \<times> 'x \<Rightarrow> 'x ModelState \<Rightarrow> 'x ModelState" where
  "handle_events events lo hi st =
     fold (process_event events) (crossing_in_window events (event_log st) lo hi)
       (st\<lparr>time := fst hi, state := snd hi\<rparr>)"

text \<open>
  Modelled from the spec: a static event list with two events whose order matters
  (no such model is among the sources): the first adds 1 to the state when the state
  rises through 1, the second doubles the state when the time rises through 1.
\<close>

definition two_events :: "real Event list" where
  "two_events =
     [\<lparr>root_value = (\<lambda>t x. x - 1), direction_filter = Rising, one_shot = False,
       state_update_rule = (\<lambda>t x. x + 1)\<rparr>,
      \<lparr>root_value = (\<lambda>t x. t - 1), direction_filter = Rising, one_shot = False,
       state_update_rule = (\<lambda>t x. 2 * x)\<rparr>]"

section \<open>Theorems\<close>

text \<open>
  C8. On a zero-initialised buffer of nine entries, for all inputs \<open>t\<close>, \<open>x\<close>, \<open>p\<close>,
  \<open>k\<close>, \<open>M_model_robertson\<close> leaves the buffer \<open>diag(1, 1, 0)\<close>: the entries at
  offsets 0 and 4 are 1 and every other entry, the third diagonal entry at offset 8
  included, is still 0. The third row of the matrix is zero (the third equation has
  no derivative term) and the matrix is singular (its determinant is 0).
\<close>

theorem M_model_robertson_zero_buffer:
  "\<exists>M'. M_model_robertson (replicate 9 0) t x p k = Some M'
     \<and> M' = [1, 0, 0, 0, 1, 0, 0, 0, 0]
     \<and> entry3 M' 2 0 = 0 \<and> entry3 M' 2 1 = 0 \<and> entry3 M' 2 2 = 0
     \<and> det3 M' = 0"
  by (simp add: M_model_robertson_def det3_def entry3_def numeral_eq_Suc)

text \<open>
  C9. \<open>M_model_robertson\<close> does not depend on its numeric inputs: from equal initial
  buffers, any two input tuples give equal mass-matrix buffers.
\<close>

theorem M_model_robertson_input_independent:
  "M_model_robertson M t1 x1 p1 k1 = M_model_robertson M t2 x2 p2 k2"
  by (simp add: M_model_robertson_def)

subsection \<open>Initial flux balance of \<^verbatim>\<open>regression_2642\<close>\<close>

text \<open>
  The three parameters that carry a \<open>value\<close> attribute have a value under every
  valuation: the caller's, or else the file's.
\<close>

lemma valuation_recycling:
  "valuation_env regression_2642 v ''recycling'' =
     Some (case v ''recycling'' of None \<Rightarrow> 45 / 10000000 | Some c \<Rightarrow> c)"
  by (simp add: valuation_env_def regression_2642_def map_add_def split: option.split)

lemma valuation_MR_i_t0:
  "valuation_env regression_2642 v ''MR_i_t0'' =
     Some (case v ''MR_i_t0'' of None \<Rightarrow> 1400000 | Some c \<Rightarrow> c)"
  by (simp add: valuation_env_def regression_2642_def map_add_def split: option.split)

lemma valuation_MR_m_t0:
  "valuation_env regression_2642 v ''MR_m_t0'' =
     Some (case v ''MR_m_t0'' of None \<Rightarrow> 600000 | Some c \<Rightarrow> c)"
  by (simp add: valuation_env_def regression_2642_def map_add_def split: option.split)

text \<open>
  C10. For every parameter valuation under which \<open>MR_m\<close> starts nonzero, the initial
  assignments evaluate, and at \<open>t = 0\<close> the rates of the three reactions are
  \<open>synthesis_MR\<close>, \<open>recycling * MR_i\<close> and \<open>binding * MR_m\<close> with
  \<open>synthesis_MR - recycling * MR_i + binding * MR_m = 0\<close> in exact rational arithmetic:
  the net initial rate of \<open>MR_i\<close> is zero, while the net initial rate of \<open>MR_m\<close> is
  \<open>synthesis_MR\<close>, which is not zero.
\<close>

theorem regression_2642_flux_balance:
  assumes "valuation_env regression_2642 v ''MR_m_t0'' \<noteq> Some 0"
  shows "\<exists>e syn r b mi mm.
     initial_env regression_2642 v = Some e
   \<and> e ''synthesis_MR'' = Some syn \<and> e ''recycling'' = Some r \<and> e ''binding'' = Some b
   \<and> e ''MR_i'' = Some mi \<and> e ''MR_m'' = Some mm \<and> mm \<noteq> 0
   \<and> rate_of regression_2642 e ''_J0'' = Some syn
   \<and> rate_of regression_2642 e ''_J1'' = Some (r * mi)
   \<and> rate_of regression_2642 e ''_J2'' = Some (b * mm)
   \<and> syn - r * mi + b * mm = 0
   \<and> net_rate e (listOfReactions regression_2642) ''MR_i'' = Some 0
   \<and> net_rate e (listOfReactions regression_2642) ''MR_m'' = Some syn
   \<and> syn \<noteq> 0"
proof -
  obtain r mi mm where
    r: "valuation_env regression_2642 v ''recycling'' = Some r" and
    mi: "valuation_env regression_2642 v ''MR_i_t0'' = Some mi" and
    mm: "valuation_env regression_2642 v ''MR_m_t0'' = Some mm"
    using valuation_recycling valuation_MR_i_t0 valuation_MR_m_t0 by blast
  from assms mm have nz: "mm \<noteq> 0" by simp
  define syn :: rat where "syn = (585177319092733 / 100000000000000000) / (606 / 100000)"
  define b where "b = (r * mi - syn) / mm"
  define e where "e = (valuation_env regression_2642 v)
    (''MR_i'' \<mapsto> mi, ''MR_m'' \<mapsto> mm, ''synthesis_MR'' \<mapsto> syn, ''binding'' \<mapsto> b)"
  have ie: "initial_env regression_2642 v = Some e"
    using r mi mm nz
    by (simp add: initial_env_def regression_2642_def e_def syn_def b_def)
  have synz: "syn \<noteq> 0" by (simp add: syn_def)
  have vals: "e ''synthesis_MR'' = Some syn" "e ''recycling'' = Some r"
    "e ''binding'' = Some b" "e ''MR_i'' = Some mi" "e ''MR_m'' = Some mm"
    using r by (simp_all add: e_def)
  have rates: "rate_of regression_2642 e ''_J0'' = Some syn"
    "rate_of regression_2642 e ''_J1'' = Some (r * mi)"
    "rate_of regression_2642 e ''_J2'' = Some (b * mm)"
    using vals by (simp_all add: regression_2642_def rate_def rate_of_def reaction_named_def)
  have bal: "syn - r * mi + b * mm = 0"
    using nz by (simp add: b_def)
  have n1: "net_rate e (listOfReactions regression_2642) ''MR_i'' = Some 0"
    using vals bal by (simp add: regression_2642_def rate_def stoich_of_def)
  have n2: "net_rate e (listOfReactions regression_2642) ''MR_m'' = Some syn"
    using vals nz by (simp add: regression_2642_def rate_def stoich_of_def b_def)
  show ?thesis
    by (rule exI[of _ e], rule exI[of _ syn], rule exI[of _ r], rule exI[of _ b],
        rule exI[of _ mi], rule exI[of _ mm])
       (simp add: ie vals rates bal n1 n2 synz nz)
qed

text \<open>
  The hypothesis holds for the values of the file itself (no value overridden).
\<close>

theorem regression_2642_flux_balance_witness:
  "valuation_env regression_2642 Map.empty ''MR_m_t0'' \<noteq> Some 0
   \<and> (\<exists>e syn r b mi mm.
     initial_env regression_2642 Map.empty = Some e
   \<and> e ''synthesis_MR'' = Some syn \<and> e ''recycling'' = Some r \<and> e ''binding'' = Some b
   \<and> e ''MR_i'' = Some mi \<and> e ''MR_m'' = Some mm \<and> mm \<noteq> 0
   \<and> rate_of regression_2642 e ''_J0'' = Some syn
   \<and> rate_of regression_2642 e ''_J1'' = Some (r * mi)
   \<and> rate_of regression_2642 e ''_J2'' = Some (b * mm)
   \<and> syn - r * mi + b * mm = 0
   \<and> net_rate e (listOfReactions regression_2642) ''MR_i'' = Some 0
   \<and> net_rate e (listOfReactions regression_2642) ''MR_m'' = Some syn
   \<and> syn \<noteq> 0)"
proof -
  have h: "valuation_env regression_2642 Map.empty ''MR_m_t0'' \<noteq> Some 0"
    by (simp add: valuation_env_def regression_2642_def)
  show ?thesis
    by (rule conjI [OF h regression_2642_flux_balance [OF h]])
qed

subsection \<open>The steady-state solver never reports an unconverged state\<close>

lemma iterate_sound:
  "iterate_until_steady P step n i x = Inr r \<Longrightarrow>
     convergence_flag r \<and> is_steady P (final_state r)"
  by (induction n arbitrary: i x) (auto split: if_splits)

lemma iterate_stalled:
  "(\<forall>k \<le> n. \<not> is_steady P ((step ^^ k) x)) \<Longrightarrow>
     iterate_until_steady P step n i x = Inl ((step ^^ n) x, i + n)"
proof (induction n arbitrary: i x)
  case 0
  then show ?case by simp
next
  case (Suc n)
  have x: "\<not> is_steady P x" using Suc.prems[rule_format, of 0] by simp
  have "\<forall>k \<le> n. \<not> is_steady P ((step ^^ k) (step x))"
  proof (intro allI impI)
    fix k assume "k \<le> n"
    then show "\<not> is_steady P ((step ^^ k) (step x))"
      using Suc.prems[rule_format, of "Suc k"] by (simp add: funpow_swap1)
  qed
  from Suc.IH[OF this, of "Suc i"] x show ?case by (simp add: funpow_swap1)
qed

text \<open>
  C3. When the budget is exceeded before the convergence norm falls below the
  threshold, the Steady-State Solver fails with \<open>NonConvergenceError\<close>, carrying a
  last iterate that does not pass the convergence test; and whatever the solver
  returns as a result has its convergence flag set and does pass the test, so that no
  unconverged state is returned as steady.
\<close>

theorem steady_state_nonconvergence:
  "(budget_exceeded s P x0 \<longrightarrow>
      (\<exists>last. steady_state s P x0 = Inl (NonConvergenceError last) \<and> \<not> is_steady P last))
   \<and> (\<forall>r. steady_state s P x0 = Inr r \<longrightarrow>
         convergence_flag r \<and> is_steady P (final_state r))"
proof -
  have A: "\<exists>last. steady_state s P x0 = Inl (NonConvergenceError last) \<and> \<not> is_steady P last"
    if b: "budget_exceeded s P x0"
  proof (cases s)
    case RootFindingBased
    with b have a: "\<forall>k \<le> newton_budget P. \<not> is_steady P ((newton_step P ^^ k) x0)"
      by (simp add: budget_exceeded_def)
    from iterate_stalled[OF a, of 0] a RootFindingBased show ?thesis
      by (simp add: steady_state_def)
  next
    case IntegrationBased
    with b have a1: "\<forall>k \<le> step_budget P. \<not> is_steady P ((driver_step P ^^ k) x0)"
      and a2: "\<forall>k \<le> newton_budget P.
        \<not> is_steady P ((newton_step P ^^ k) ((driver_step P ^^ step_budget P) x0))"
      by (simp_all add: budget_exceeded_def)
    from iterate_stalled[OF a1, of 0] iterate_stalled[OF a2, of "step_budget P"] a2
      IntegrationBased
    show ?thesis
      by (simp add: steady_state_def)
  qed
  have B: "convergence_flag r \<and> is_steady P (final_state r)"
    if "steady_state s P x0 = Inr r" for r
    using that
    by (auto simp: steady_state_def
          split: steady_state_strategy.splits sum.splits prod.splits
          dest: iterate_sound)
  from A B show ?thesis by blast
qed

text \<open>
  The oscillatory model with no fixed point exceeds its budget and fails with
  \<open>NonConvergenceError\<close>; the linear decay converges after four steps of the driver.
\<close>

theorem steady_state_nonconvergence_witness:
  "budget_exceeded IntegrationBased phase_oscillator 0
   \<and> steady_state IntegrationBased phase_oscillator 0 = Inl (NonConvergenceError 1)
   \<and> \<not> is_steady phase_oscillator 1
   \<and> steady_state IntegrationBased linear_decay 1 =
       Inr \<lparr>final_state = 1 / 16, convergence_flag = True, iterations = 4\<rparr>
   \<and> is_steady linear_decay (1 / 16)"
proof -
  have h: "budget_exceeded IntegrationBased phase_oscillator 0"
    by (simp add: budget_exceeded_def is_steady_def phase_oscillator_def)
  have e: "steady_state IntegrationBased phase_oscillator 0 = Inl (NonConvergenceError 1)"
    by (simp add: steady_state_def is_steady_def phase_oscillator_def numeral_eq_Suc)
  have d: "steady_state IntegrationBased linear_decay 1 =
       Inr \<lparr>final_state = 1 / 16, convergence_flag = True, iterations = 4\<rparr>"
    by (simp add: steady_state_def is_steady_def linear_decay_def numeral_eq_Suc)
  from steady_state_nonconvergence[of IntegrationBased phase_oscillator 0]
    steady_state_nonconvergence[of IntegrationBased linear_decay 1] h e d
  show ?thesis by simp
qed

subsection \<open>Events of one window are processed in declaration order\<close>

lemma fold_process_event:
  "fold (process_event events) is st =
     st\<lparr>state := fold (\<lambda>i. state_update_rule (events ! i) (time st)) is (state st),
        event_log := event_log st @ map (\<lambda>i. \<lparr>which_root = i, crossing_time = time st\<rparr>) is\<rparr>"
  by (induction "is" arbitrary: st) (simp_all add: process_event_def)

lemma sorted_crossing_in_window:
  "sorted_wrt (<) (crossing_in_window events occ lo hi)"
  unfolding crossing_in_window_def by (rule sorted_wrt_filter) simp

lemma set_crossing_in_window:
  "set (crossing_in_window events occ lo hi) =
     {i. i < length events \<and> crosses (events ! i) lo hi
         \<and> \<not> (one_shot (events ! i) \<and> i \<in> set (map which_root occ))}"
  by (auto simp: crossing_in_window_def spent_def)

text \<open>
  C7. When the roots of several events cross within the same window, handling them
  appends occurrences to the event log such that: the events that occur are exactly
  the events of the static event list whose root crosses in the window in its
  direction (a one-shot event that already occurred excepted); they occur in
  strictly increasing position of the static event list (declaration order), each
  once, all at the window's upper time; and the state is the one obtained by
  applying their state-update rules in that order.
\<close>

theorem handle_events_declaration_order:
  "\<exists>new. event_log (handle_events events lo hi st) = event_log st @ new
     \<and> set (map which_root new) =
         {i. i < length events \<and> crosses (events ! i) lo hi
             \<and> \<not> (one_shot (events ! i) \<and> i \<in> set (map which_root (event_log st)))}
     \<and> sorted_wrt (<) (map which_root new)
     \<and> map crossing_time new = map (\<lambda>i. fst hi) new
     \<and> state (handle_events events lo hi st) =
         fold (\<lambda>i. state_update_rule (events ! i) (fst hi)) (map which_root new) (snd hi)"
proof -
  let ?is = "crossing_in_window events (event_log st) lo hi"
  let ?new = "map (\<lambda>i. \<lparr>which_root = i, crossing_time = fst hi\<rparr>) ?is"
  have m: "map which_root ?new = ?is" by (simp add: comp_def)
  have l: "event_log (handle_events events lo hi st) = event_log st @ ?new"
    by (simp add: handle_events_def fold_process_event)
  have c: "set (map which_root ?new) =
         {i. i < length events \<and> crosses (events ! i) lo hi
             \<and> \<not> (one_shot (events ! i) \<and> i \<in> set (map which_root (event_log st)))}"
    unfolding m by (rule set_crossing_in_window)
  have o: "sorted_wrt (<) (map which_root ?new)"
    unfolding m by (rule sorted_crossing_in_window)
  have t: "map crossing_time ?new = map (\<lambda>i. fst hi) ?new"
    by (simp add: comp_def)
  have x: "state (handle_events events lo hi st) =
         fold (\<lambda>i. state_update_rule (events ! i) (fst hi)) (map which_root ?new) (snd hi)"
    unfolding m by (simp add: handle_events_def fold_process_event)
  from l c o t x show ?thesis by blast
qed

text \<open>
  On the list \<open>two_events\<close> both roots cross in the window from \<open>(9/10, 9/10)\<close> to
  \<open>(11/10, 11/10)\<close>; the first event is processed before the second, which gives
  the state \<open>2 * (11/10 + 1)\<close> and not \<open>2 * (11/10) + 1\<close>.
\<close>

lemma two_events_in_order:
  "handle_events two_events (9 / 10, 9 / 10) (11 / 10, 11 / 10)
     \<lparr>time = 9 / 10, state = 9 / 10, event_log = []\<rparr> =
   \<lparr>time = 11 / 10, state = 21 / 5,
    event_log = [\<lparr>which_root = 0, crossing_time = 11 / 10\<rparr>,
                 \<lparr>which_root = 1, crossing_time = 11 / 10\<rparr>]\<rparr>"
  by (simp add: handle_events_def crossing_in_window_def two_events_def crosses_def
        sign_change_def spent_def process_event_def upt_rec)

end
